theory Spec2Isabelle
  imports Complex_Main
begin

section \<open>Errors and float values\<close>

text \<open>
  The exceptions the two modules can raise. \<open>assert\<close> raises \<open>AssertionError\<close> with the
  message of the statement; the division of two Python floats raises
  \<open>ZeroDivisionError\<close> and their power \<open>OverflowError\<close>; unpacking a sequence of the wrong
  length raises \<open>ValueError\<close>; reading position 0 of an empty sequence raises \<open>IndexError\<close>.
\<close>

datatype py_error =
    AssertionError string
  | ZeroDivisionError
  | OverflowError
  | ValueError
  | IndexError

text \<open>
  A float is a finite value, an infinity or not-a-number. Zero carries no sign: the sign
  of a zero shows only in which of the two infinities a numpy division by it gives. An
  operation gives the double nearest to its exact result. Of that rounding the model keeps
  the two ends of the range: a result of size \<open>2\<^sup>1\<^sup>0\<^sup>2\<^sup>4 - 2\<^sup>9\<^sup>7\<^sup>0\<close> or more is nearer to
  \<open>2\<^sup>1\<^sup>0\<^sup>2\<^sup>4\<close> than to the largest double and overflows, and one of size \<open>2\<^sup>-\<^sup>1\<^sup>0\<^sup>7\<^sup>5\<close> or
  less is nearer to zero than to the smallest double and underflows to zero. Between
  them a result is kept exact: the rounding error of an operation inside the range is
  not modelled.
\<close>

datatype pyfloat = Fin real | PInf | NInf | NaN

definition float_overflow :: real where
  "float_overflow = 2 ^ 1024 - 2 ^ 970"

definition float_underflow :: real where
  "float_underflow = 1 / 2 ^ 1075"

definition overflow_of :: "real \<Rightarrow> pyfloat" where
  "overflow_of x =
     (if float_overflow \<le> x then PInf else if x \<le> - float_overflow then NInf else Fin x)"

definition double_of :: "real \<Rightarrow> pyfloat" where
  "double_of x = (if \<bar>x\<bar> \<le> float_underflow then Fin 0 else overflow_of x)"

fun fneg :: "pyfloat \<Rightarrow> pyfloat" where
  "fneg (Fin a) = Fin (- a)"
| "fneg PInf = NInf"
| "fneg NInf = PInf"
| "fneg NaN = NaN"

text \<open>
  The sum of two doubles can overflow; it cannot underflow, since it is a multiple of
  the smallest double.
\<close>

fun fadd :: "pyfloat \<Rightarrow> pyfloat \<Rightarrow> pyfloat" where
  "fadd NaN y = NaN"
| "fadd x NaN = NaN"
| "fadd (Fin a) (Fin b) = overflow_of (a + b)"
| "fadd PInf NInf = NaN"
| "fadd NInf PInf = NaN"
| "fadd (Fin a) y = y"
| "fadd x y = x"

definition fsub :: "pyfloat \<Rightarrow> pyfloat \<Rightarrow> pyfloat" where
  "fsub x y = fadd x (fneg y)"

fun fmul :: "pyfloat \<Rightarrow> pyfloat \<Rightarrow> pyfloat" where
  "fmul NaN y = NaN"
| "fmul x NaN = NaN"
| "fmul (Fin a) (Fin b) = double_of (a * b)"
| "fmul (Fin a) y = (if a = 0 then NaN else if 0 < a then y else fneg y)"
| "fmul x (Fin b) = (if b = 0 then NaN else if 0 < b then x else fneg x)"
| "fmul x y = (if x = y then PInf else NInf)"

text \<open>
  Division of numpy floats (\<open>np.float64.__truediv__\<close>): a zero divisor gives an infinity
  or NaN (and a warning), never an exception.
\<close>

fun np_divide :: "pyfloat \<Rightarrow> pyfloat \<Rightarrow> pyfloat" where
  "np_divide NaN y = NaN"
| "np_divide x NaN = NaN"
| "np_divide (Fin a) (Fin b) =
     (if b = 0 then (if a = 0 then NaN else if 0 < a then PInf else NInf)
      else double_of (a / b))"
| "np_divide (Fin a) y = Fin 0"
| "np_divide x (Fin b) = (if 0 \<le> b then x else fneg x)"
| "np_divide x y = NaN"

text \<open>
  Division of Python floats (\<open>float.__truediv__\<close>): a zero divisor raises
  \<open>ZeroDivisionError\<close>, whatever the dividend; a quotient out of range is an infinity.
\<close>

definition py_truediv :: "pyfloat \<Rightarrow> pyfloat \<Rightarrow> py_error + pyfloat" where
  "py_truediv x y = (if y = Fin 0 then Inl ZeroDivisionError else Inr (np_divide x y))"

text \<open>
  \<open>x ** 2\<close> on a Python float (\<open>float.__pow__\<close>): a finite square out of range raises
  \<open>OverflowError\<close>; one that underflows is zero.
\<close>

fun py_pow2 :: "pyfloat \<Rightarrow> py_error + pyfloat" where
  "py_pow2 (Fin a) =
     (if float_overflow \<le> a ^ 2 then Inl OverflowError else Inr (double_of (a ^ 2)))"
| "py_pow2 PInf = Inr PInf"
| "py_pow2 NInf = Inr PInf"
| "py_pow2 NaN = Inr NaN"

text \<open>
  The logarithm and the square root of a double are within the range. \<open>np.exp\<close> overflows
  to an infinity and underflows to zero.
\<close>

fun np_log :: "pyfloat \<Rightarrow> pyfloat" where
  "np_log (Fin a) = (if 0 < a then Fin (ln a) else if a = 0 then NInf else NaN)"
| "np_log PInf = PInf"
| "np_log NInf = NaN"
| "np_log NaN = NaN"

fun np_sqrt :: "pyfloat \<Rightarrow> pyfloat" where
  "np_sqrt (Fin a) = (if 0 \<le> a then Fin (sqrt a) else NaN)"
| "np_sqrt PInf = PInf"
| "np_sqrt NInf = NaN"
| "np_sqrt NaN = NaN"

fun np_exp :: "pyfloat \<Rightarrow> pyfloat" where
  "np_exp (Fin a) = double_of (exp a)"
| "np_exp PInf = PInf"
| "np_exp NInf = Fin 0"
| "np_exp NaN = NaN"

section \<open>Options Arbitrage: black_scholes.py\<close>

text \<open>
  Modelled from the spec: \<open>stats.norm(0, 1)\<close> is scipy's, outside the repository; the
  specification takes its \<open>cdf\<close> and \<open>pdf\<close> as the standard normal CDF and PDF. The density
  is \<open>exp(-x\<^sup>2 / 2)\<close> divided by its total mass. \<open>gauss_integral x\<close> is the integral of
  \<open>exp(-t\<^sup>2 / 2)\<close> from 0 to \<open>x\<close>, as its power series
  \<open>x - x\<^sup>3 / 6 + x\<^sup>5 / 40 - ...\<close>; it is odd and increasing, so half the total mass is its
  supremum, and the cdf is a half plus the integral over the total mass.
\<close>

definition gauss_coeff :: "nat \<Rightarrow> real" where
  "gauss_coeff n = (- 1 / 2) ^ n / (fact n * (2 * real n + 1))"

definition gauss_series :: "real \<Rightarrow> real" where
  "gauss_series u = (\<Sum>n. gauss_coeff n * u ^ n)"

definition gauss_integral :: "real \<Rightarrow> real" where
  "gauss_integral x = x * gauss_series (x\<^sup>2)"

definition gauss_half_mass :: real where
  "gauss_half_mass = (SUP x. gauss_integral x)"

definition std_norm_cdf :: "real \<Rightarrow> real" where
  "std_norm_cdf x = 1 / 2 + gauss_integral x / (2 * gauss_half_mass)"

definition std_norm_pdf :: "real \<Rightarrow> real" where
  "std_norm_pdf x = exp (- (x\<^sup>2) / 2) / (2 * gauss_half_mass)"

text \<open>
  \<open>_norm_cdf\<close> and \<open>_norm_pdf\<close>. Far in the tails their values underflow to zero. On the
  special values scipy returns \<open>cdf(inf) = 1\<close>, \<open>cdf(-inf) = 0\<close>, \<open>pdf(inf) = pdf(-inf) = 0\<close>,
  and NaN on NaN.
\<close>

fun norm_cdf :: "pyfloat \<Rightarrow> pyfloat" where
  "norm_cdf (Fin a) = double_of (std_norm_cdf a)"
| "norm_cdf PInf = Fin 1"
| "norm_cdf NInf = Fin 0"
| "norm_cdf NaN = NaN"

fun norm_pdf :: "pyfloat \<Rightarrow> pyfloat" where
  "norm_pdf (Fin a) = double_of (std_norm_pdf a)"
| "norm_pdf PInf = Fin 0"
| "norm_pdf NInf = Fin 0"
| "norm_pdf NaN = NaN"

text \<open>
  \<open>_d1\<close>. The arguments are Python floats. \<open>S / K\<close> is evaluated first and divides two of
  them; \<open>sigma ** 2\<close> comes next and is their power. Every other operation has a numpy
  float among its operands, or is a sum or product of Python floats: none of these
  raises. (Called on numpy floats instead, the division and the power would not raise
  either, and give an infinity or NaN.)
\<close>

definition d1 :: "pyfloat \<Rightarrow> pyfloat \<Rightarrow> pyfloat \<Rightarrow> pyfloat \<Rightarrow> pyfloat \<Rightarrow> py_error + pyfloat" where
  "d1 S K T r sigma =
     (case py_truediv S K of
        Inl e \<Rightarrow> Inl e
      | Inr q \<Rightarrow>
          (case py_pow2 sigma of
             Inl e \<Rightarrow> Inl e
           | Inr s \<Rightarrow>
               Inr (np_divide
                      (fadd (np_log q) (fmul (fadd r (fmul (Fin 0.5) s)) T))
                      (fmul sigma (np_sqrt T)))))"

definition d2 :: "pyfloat \<Rightarrow> pyfloat \<Rightarrow> pyfloat \<Rightarrow> pyfloat \<Rightarrow> pyfloat \<Rightarrow> py_error + pyfloat" where
  "d2 S K T r sigma =
     (case d1 S K T r sigma of
        Inl e \<Rightarrow> Inl e
      | Inr a \<Rightarrow> Inr (fsub a (fmul sigma (np_sqrt T))))"

definition call_value ::
  "pyfloat \<Rightarrow> pyfloat \<Rightarrow> pyfloat \<Rightarrow> pyfloat \<Rightarrow> pyfloat \<Rightarrow> py_error + pyfloat" where
  "call_value S K T r sigma =
     (case d1 S K T r sigma of
        Inl e \<Rightarrow> Inl e
      | Inr a \<Rightarrow>
          (case d2 S K T r sigma of
             Inl e \<Rightarrow> Inl e
           | Inr b \<Rightarrow>
               Inr (fsub (fmul S (norm_cdf a))
                         (fmul (fmul K (np_exp (fmul (fneg r) T))) (norm_cdf b)))))"

definition put_value ::
  "pyfloat \<Rightarrow> pyfloat \<Rightarrow> pyfloat \<Rightarrow> pyfloat \<Rightarrow> pyfloat \<Rightarrow> py_error + pyfloat" where
  "put_value S K T r sigma =
     (case d2 S K T r sigma of
        Inl e \<Rightarrow> Inl e
      | Inr b \<Rightarrow>
          (case d1 S K T r sigma of
             Inl e \<Rightarrow> Inl e
           | Inr a \<Rightarrow>
               Inr (fsub (fmul (fmul (np_exp (fmul (fneg r) T)) K) (norm_cdf (fneg b)))
                         (fmul S (norm_cdf (fneg a))))))"

definition call_delta ::
  "pyfloat \<Rightarrow> pyfloat \<Rightarrow> pyfloat \<Rightarrow> pyfloat \<Rightarrow> pyfloat \<Rightarrow> py_error + pyfloat" where
  "call_delta S K T r sigma =
     (case d1 S K T r sigma of
        Inl e \<Rightarrow> Inl e
      | Inr a \<Rightarrow> Inr (norm_cdf a))"

definition put_delta ::
  "pyfloat \<Rightarrow> pyfloat \<Rightarrow> pyfloat \<Rightarrow> pyfloat \<Rightarrow> pyfloat \<Rightarrow> py_error + pyfloat" where
  "put_delta S K T r sigma =
     (case call_delta S K T r sigma of
        Inl e \<Rightarrow> Inl e
      | Inr v \<Rightarrow> Inr (fsub v (Fin 1)))"

definition call_vega ::
  "pyfloat \<Rightarrow> pyfloat \<Rightarrow> pyfloat \<Rightarrow> pyfloat \<Rightarrow> pyfloat \<Rightarrow> py_error + pyfloat" where
  "call_vega S K T r sigma =
     (case d1 S K T r sigma of
        Inl e \<Rightarrow> Inl e
      | Inr a \<Rightarrow> Inr (fmul (fmul S (norm_pdf a)) (np_sqrt T)))"

definition put_vega ::
  "pyfloat \<Rightarrow> pyfloat \<Rightarrow> pyfloat \<Rightarrow> pyfloat \<Rightarrow> pyfloat \<Rightarrow> py_error + pyfloat" where
  "put_vega S K T r sigma = call_vega S K T r sigma"

subsection \<open>The formulas of the specification, and the range of the doubles\<close>

text \<open>
  \<open>d1\<close> and \<open>d2\<close> as the specification writes them, over the reals.
\<close>

definition spec_d1 :: "real \<Rightarrow> real \<Rightarrow> real \<Rightarrow> real \<Rightarrow> real \<Rightarrow> real" where
  "spec_d1 S K T r sigma = (ln (S / K) + (r + sigma\<^sup>2 / 2) * T) / (sigma * sqrt T)"

definition spec_d2 :: "real \<Rightarrow> real \<Rightarrow> real \<Rightarrow> real \<Rightarrow> real \<Rightarrow> real" where
  "spec_d2 S K T r sigma = spec_d1 S K T r sigma - sigma * sqrt T"

text \<open>
  A real is within the range when the operation that produces it neither overflows nor
  underflows; for a sum only the overflow matters.
\<close>

definition in_range :: "real \<Rightarrow> bool" where
  "in_range x \<longleftrightarrow> (x = 0 \<or> float_underflow < \<bar>x\<bar>) \<and> \<bar>x\<bar> < float_overflow"

definition no_overflow :: "real \<Rightarrow> bool" where
  "no_overflow x \<longleftrightarrow> \<bar>x\<bar> < float_overflow"

text \<open>
  The intermediate results of \<open>_d1\<close>, in the order of evaluation: \<open>S / K\<close>, \<open>sigma ** 2\<close>,
  its half, the sum with \<open>r\<close>, the product with \<open>T\<close>, the numerator, the denominator and
  the quotient. \<open>_d2\<close> adds one difference.
\<close>

definition d1_in_range :: "real \<Rightarrow> real \<Rightarrow> real \<Rightarrow> real \<Rightarrow> real \<Rightarrow> bool" where
  "d1_in_range S K T r sigma \<longleftrightarrow>
     in_range (S / K) \<and> in_range (sigma\<^sup>2) \<and> in_range (sigma\<^sup>2 / 2) \<and>
     no_overflow (r + sigma\<^sup>2 / 2) \<and> in_range ((r + sigma\<^sup>2 / 2) * T) \<and>
     no_overflow (ln (S / K) + (r + sigma\<^sup>2 / 2) * T) \<and>
     in_range (sigma * sqrt T) \<and> in_range (spec_d1 S K T r sigma)"

definition d2_in_range :: "real \<Rightarrow> real \<Rightarrow> real \<Rightarrow> real \<Rightarrow> real \<Rightarrow> bool" where
  "d2_in_range S K T r sigma \<longleftrightarrow>
     d1_in_range S K T r sigma \<and> no_overflow (spec_d2 S K T r sigma)"

text \<open>The discounted strike: \<open>-r * T\<close>, its exponential and the product with \<open>K\<close>.\<close>

definition discount_in_range :: "real \<Rightarrow> real \<Rightarrow> real \<Rightarrow> bool" where
  "discount_in_range K T r \<longleftrightarrow>
     in_range (r * T) \<and> in_range (exp (- (r * T))) \<and> in_range (K * exp (- (r * T)))"

text \<open>
  The intermediate results of \<open>call_value\<close> and of \<open>put_value\<close>: those of \<open>_d1\<close> and \<open>_d2\<close>, the
  discounted strike, the two values of the cdf, the two products and their difference.
\<close>

definition call_value_in_range :: "real \<Rightarrow> real \<Rightarrow> real \<Rightarrow> real \<Rightarrow> real \<Rightarrow> bool" where
  "call_value_in_range S K T r sigma \<longleftrightarrow>
     d2_in_range S K T r sigma \<and> discount_in_range K T r \<and>
     in_range (std_norm_cdf (spec_d1 S K T r sigma)) \<and>
     in_range (S * std_norm_cdf (spec_d1 S K T r sigma)) \<and>
     in_range (std_norm_cdf (spec_d2 S K T r sigma)) \<and>
     in_range (K * exp (- (r * T)) * std_norm_cdf (spec_d2 S K T r sigma)) \<and>
     no_overflow (S * std_norm_cdf (spec_d1 S K T r sigma) -
                  K * exp (- (r * T)) * std_norm_cdf (spec_d2 S K T r sigma))"

definition put_value_in_range :: "real \<Rightarrow> real \<Rightarrow> real \<Rightarrow> real \<Rightarrow> real \<Rightarrow> bool" where
  "put_value_in_range S K T r sigma \<longleftrightarrow>
     d2_in_range S K T r sigma \<and> discount_in_range K T r \<and>
     in_range (std_norm_cdf (- spec_d2 S K T r sigma)) \<and>
     in_range (K * exp (- (r * T)) * std_norm_cdf (- spec_d2 S K T r sigma)) \<and>
     in_range (std_norm_cdf (- spec_d1 S K T r sigma)) \<and>
     in_range (S * std_norm_cdf (- spec_d1 S K T r sigma)) \<and>
     no_overflow (K * exp (- (r * T)) * std_norm_cdf (- spec_d2 S K T r sigma) -
                  S * std_norm_cdf (- spec_d1 S K T r sigma))"

text \<open>\<open>sigma ** 2\<close> raises exactly on a finite \<open>sigma\<close> whose square is out of range.\<close>

definition square_overflows :: "pyfloat \<Rightarrow> bool" where
  "square_overflows sigma =
     (case sigma of Fin a \<Rightarrow> float_overflow \<le> a\<^sup>2 | PInf \<Rightarrow> False | NInf \<Rightarrow> False
      | NaN \<Rightarrow> False)"

section \<open>Statistical Arbitrage: cointegration_analysis.py\<close>

subsection \<open>pandas objects\<close>

text \<open>
  A \<open>pd.Series\<close> is a sequence of values, each under its index label; a missing value
  (NaN or None) is \<open>None\<close>. The other constructors stand for ordered sequences of floats
  that are not a \<open>pd.Series\<close>.
\<close>

type_synonym 'i series = "('i \<times> real option) list"

datatype 'i pyobj =
    Series "'i series"
  | NdArray "real option list"
  | PyList "real option list"

fun isinstance_Series :: "'i pyobj \<Rightarrow> bool" where
  "isinstance_Series (Series s) = True"
| "isinstance_Series (NdArray vs) = False"
| "isinstance_Series (PyList vs) = False"

definition index :: "'i series \<Rightarrow> 'i list" where
  "index s = map fst s"

definition isnull :: "'i series \<Rightarrow> bool list" where
  "isnull s = map (\<lambda>(i, v). v = None) s"

text \<open>Python's \<open>sum\<close> over booleans counts the true ones.\<close>

definition sum_bools :: "bool list \<Rightarrow> nat" where
  "sum_bools bs = length (filter (\<lambda>b. b) bs)"

fun opt_sub :: "real option \<Rightarrow> real option \<Rightarrow> real option" where
  "opt_sub (Some b) (Some a) = Some (b - a)"
| "opt_sub b a = None"

fun diff_values :: "real option list \<Rightarrow> real option list" where
  "diff_values (a # b # vs) = opt_sub b a # diff_values (b # vs)"
| "diff_values vs = []"

text \<open>
  \<open>s.diff()\<close> keeps the index and puts under each label the value minus the one before;
  \<open>s.shift()\<close> keeps the index and moves every value one label down. Both leave the first
  label with a missing value. \<open>s.iloc[1:]\<close> drops the first row.
\<close>

definition diff :: "'i series \<Rightarrow> 'i series" where
  "diff s = zip (index s) (None # diff_values (map snd s))"

definition shift :: "'i series \<Rightarrow> 'i series" where
  "shift s = zip (index s) (None # map snd s)"

definition iloc_from1 :: "'i series \<Rightarrow> 'i series" where
  "iloc_from1 s = tl s"

subsection \<open>statsmodels\<close>

text \<open>
  \<open>add_constant\<close>, \<open>OLS(...).fit()\<close> and \<open>adfuller\<close> come from statsmodels, outside the
  repository: they are parameters of the two functions. A fit gives the coefficients
  and the residuals, or fails with the exception statsmodels raises. \<open>adfuller\<close> with
  \<open>autolag=None\<close> returns five values. The functions return, beside their result, the
  calls they made to the two estimators, in order.
\<close>

record 'i ols_results =
  params :: "real list"
  resid :: "'i series"

record adf_results =
  adfstat :: real
  pvalue :: real
  usedlag :: nat
  nobs :: nat
  crit_values :: "(string \<times> real) list"

datatype 'i lib_call =
    OLS_fit "'i series" "'i series list" "bool option"
  | ADF "'i series" nat "string option"

type_synonym 'i add_constant_fn = "'i series \<Rightarrow> 'i series list"

type_synonym 'i OLS_fn =
  "'i series \<Rightarrow> 'i series list \<Rightarrow> bool option \<Rightarrow> py_error + 'i ols_results"

type_synonym 'i adfuller_fn =
  "'i series \<Rightarrow> nat \<Rightarrow> string option \<Rightarrow> py_error + adf_results"

subsection \<open>The two functions\<close>

definition estimate_long_run_short_run_relationships ::
  "'i add_constant_fn \<Rightarrow> 'i OLS_fn \<Rightarrow> 'i pyobj \<Rightarrow> 'i pyobj \<Rightarrow>
     (py_error + real \<times> real \<times> real \<times> 'i series) \<times> 'i lib_call list" where
  "estimate_long_run_short_run_relationships add_constant OLS y x =
     (case y of
        Series ys \<Rightarrow>
          (case x of
             Series xs \<Rightarrow>
               if sum_bools (isnull ys) \<noteq> 0 then
                 (Inl (AssertionError ''Input series y has nan-values. Unhandled case.''), [])
               else if sum_bools (isnull xs) \<noteq> 0 then
                 (Inl (AssertionError ''Input series x has nan-values. Unhandled case.''), [])
               else if index ys \<noteq> index xs then
                 (Inl (AssertionError
                    ''The two input series y and x do not have the same index.''), [])
               else
                 let long_run = OLS_fit ys (add_constant xs) (Some True) in
                 (case OLS ys (add_constant xs) (Some True) of
                    Inl e \<Rightarrow> (Inl e, [long_run])
                  | Inr long_run_ols_fit \<Rightarrow>
                      (case params long_run_ols_fit of
                         [c, gamma] \<Rightarrow>
                           let z = resid long_run_ols_fit;
                               dy = iloc_from1 (diff ys);
                               lz = iloc_from1 (shift z);
                               short_run = OLS_fit dy [lz] None
                           in (case OLS dy [lz] None of
                                 Inl e \<Rightarrow> (Inl e, [long_run, short_run])
                               | Inr short_run_ols_fit \<Rightarrow>
                                   (case params short_run_ols_fit of
                                      [] \<Rightarrow> (Inl IndexError, [long_run, short_run])
                                    | alpha # rest \<Rightarrow>
                                        (Inr (c, gamma, alpha, z), [long_run, short_run])))
                       | ps \<Rightarrow> (Inl ValueError, [long_run])))
           | nx \<Rightarrow> (Inl (AssertionError ''Input series x should be of type pd.Series''), []))
      | ny \<Rightarrow> (Inl (AssertionError ''Input series y should be of type pd.Series''), []))"

definition engle_granger_two_step_cointegration_test ::
  "'i add_constant_fn \<Rightarrow> 'i OLS_fn \<Rightarrow> 'i adfuller_fn \<Rightarrow> 'i pyobj \<Rightarrow> 'i pyobj \<Rightarrow>
     (py_error + real \<times> real) \<times> 'i lib_call list" where
  "engle_granger_two_step_cointegration_test add_constant OLS adfuller y x =
     (case y of
        Series ys \<Rightarrow>
          (case x of
             Series xs \<Rightarrow>
               if sum_bools (isnull ys) \<noteq> 0 then
                 (Inl (AssertionError ''Input series y has nan-values. Unhandled case.''), [])
               else if sum_bools (isnull xs) \<noteq> 0 then
                 (Inl (AssertionError ''Input series x has nan-values. Unhandled case.''), [])
               else if index ys \<noteq> index xs then
                 (Inl (AssertionError
                    ''The two input series y and x do not have the same index.''), [])
               else
                 (case estimate_long_run_short_run_relationships add_constant OLS y x of
                    (Inl e, calls) \<Rightarrow> (Inl e, calls)
                  | (Inr (c, gamma, alpha, z), calls) \<Rightarrow>
                      (case adfuller z 1 None of
                         Inl e \<Rightarrow> (Inl e, calls @ [ADF z 1 None])
                       | Inr res \<Rightarrow>
                           (Inr (adfstat res, pvalue res), calls @ [ADF z 1 None])))
           | nx \<Rightarrow> (Inl (AssertionError ''Input series x should be of type pd.Series''), []))
      | ny \<Rightarrow> (Inl (AssertionError ''Input series y should be of type pd.Series''), []))"

subsection \<open>The series of the second regression, in the words of the specification\<close>

text \<open>
  A series without missing values is given by its labels and real values. The
  specification forms, for the time points \<open>t \<ge> 2\<close>, the first differences
  \<open>y_t - y_(t-1)\<close> and the lagged residuals \<open>z_(t-1)\<close>; positions count from 0 here, so these
  are the positions \<open>1\<close> to \<open>length - 1\<close>.
\<close>

definition present :: "('i \<times> real) list \<Rightarrow> 'i series" where
  "present s = map (\<lambda>(i, v). (i, Some v)) s"

definition spec_first_differences :: "('i \<times> real) list \<Rightarrow> ('i \<times> real) list" where
  "spec_first_differences y =
     map (\<lambda>t. (fst (y ! t), snd (y ! t) - snd (y ! (t - 1)))) [1..<length y]"

definition spec_lagged :: "'i series \<Rightarrow> 'i series" where
  "spec_lagged z = map (\<lambda>t. (fst (z ! t), snd (z ! (t - 1)))) [1..<length z]"

subsection \<open>Estimators to run the functions on\<close>

text \<open>
  The two functions are run below on an \<open>add_constant\<close> and an \<open>OLS\<close> that behave as the
  statsmodels ones do on these inputs. \<open>sm_add_constant\<close> follows the documented default
  \<open>has_constant='skip'\<close>: a regressor that is already a nonzero constant is returned as
  it is, with no column of ones; any other gets the column of ones before it.
  \<open>least_squares\<close> is least squares in closed form for one or two regressors, failing on
  missing values, on columns of another length and on a singular design.
\<close>

definition dot :: "real list \<Rightarrow> real list \<Rightarrow> real" where
  "dot a b = sum_list (map2 (*) a b)"

definition column :: "'i series \<Rightarrow> real list" where
  "column s = map (\<lambda>(i, v). case v of Some r \<Rightarrow> r | None \<Rightarrow> 0) s"

definition is_nonzero_const :: "'i series \<Rightarrow> bool" where
  "is_nonzero_const x =
     (case x of
        [] \<Rightarrow> False
      | (i, v) # rest \<Rightarrow> v \<noteq> None \<and> v \<noteq> Some 0 \<and> list_all (\<lambda>(j, w). w = v) rest)"

definition sm_add_constant :: "'i add_constant_fn" where
  "sm_add_constant x =
     (if is_nonzero_const x then [x] else [map (\<lambda>(i, v). (i, Some 1)) x, x])"

definition least_squares :: "'i OLS_fn" where
  "least_squares endog exog has_const =
     (if list_ex (\<lambda>s. list_ex (\<lambda>(i, v). v = None) s \<or> length s \<noteq> length endog)
           (endog # exog)
      then Inl ValueError
      else
        let y = column endog in
        (case map column exog of
           [a] \<Rightarrow>
             if dot a a = 0 then Inl ValueError
             else
               let b = dot a y / dot a a in
               Inr \<lparr>params = [b],
                    resid = zip (index endog) (map (\<lambda>(v, u). Some (v - b * u)) (zip y a))\<rparr>
         | [a, b] \<Rightarrow>
             let det = dot a a * dot b b - dot a b * dot a b in
             if det = 0 then Inl ValueError
             else
               let p = (dot b b * dot a y - dot a b * dot b y) / det;
                   q = (dot a a * dot b y - dot a b * dot a y) / det in
               Inr \<lparr>params = [p, q],
                    resid = zip (index endog)
                      (map (\<lambda>(v, u, w). Some (v - p * u - q * w)) (zip y (zip a b)))\<rparr>
         | cols \<Rightarrow> Inl ValueError))"

text \<open>
  Three observations: \<open>y = 0, 1, 0\<close> and \<open>x = 0, 1, 2\<close> at the time points 0, 1, 2, with the
  residuals \<open>z\<close> of the regression of \<open>y\<close> on \<open>x\<close> and a constant.
\<close>

definition y0 :: "(nat \<times> real) list" where
  "y0 = [(0, 0), (1, 1), (2, 0)]"

definition x0 :: "(nat \<times> real) list" where
  "x0 = [(0, 0), (1, 1), (2, 2)]"

definition z0 :: "nat series" where
  "z0 = [(0, Some (- 1 / 3)), (1, Some (2 / 3)), (2, Some (- 1 / 3))]"

section \<open>The standard normal distribution\<close>

text \<open>
  The power series converges everywhere, and \<open>gauss_integral\<close> has the derivative
  \<open>exp(-x\<^sup>2 / 2)\<close>: it is the integral from 0. It is bounded (by \<open>2 * arctan x\<close>, whose
  derivative is larger), so its supremum exists. The cdf is then increasing from 0 to 1,
  is a half at 0, has the pdf as derivative and satisfies \<open>cdf(-x) = 1 - cdf(x)\<close>.
\<close>

lemma summable_gauss: "summable (\<lambda>n. gauss_coeff n * u ^ n)"
proof (rule summable_comparison_test [OF exI, rule_format])
  show "summable (\<lambda>n. inverse (fact n) * \<bar>u\<bar> ^ n)"
    by (rule summable_exp)
next
  fix n :: nat
  have "norm (gauss_coeff n * u ^ n) = (1 / 2) ^ n * \<bar>u\<bar> ^ n / (fact n * (2 * real n + 1))"
    by (simp add: gauss_coeff_def norm_mult norm_divide norm_power power_abs abs_mult power_divide)
  also have "\<dots> \<le> 1 * \<bar>u\<bar> ^ n / (fact n * 1)"
    by (intro frac_le mult_mono power_le_one mult_left_mono) simp_all
  finally show "norm (gauss_coeff n * u ^ n) \<le> inverse (fact n) * \<bar>u\<bar> ^ n"
    by (simp add: field_simps)
qed

lemma DERIV_gauss_series:
  "DERIV gauss_series u :> (\<Sum>n. diffs gauss_coeff n * u ^ n)"
  unfolding gauss_series_def
  by (rule termdiffs_strong_converges_everywhere) (rule summable_gauss)

lemma gauss_series_ode:
  "gauss_series u + 2 * u * (\<Sum>n. diffs gauss_coeff n * u ^ n) = exp (- u / 2)"
proof -
  have s0: "(\<lambda>n. gauss_coeff n * u ^ n) sums gauss_series u"
    unfolding gauss_series_def by (rule summable_sums [OF summable_gauss])
  have "summable (\<lambda>n. diffs gauss_coeff n * u ^ n)"
    by (rule termdiff_converges_all) (rule summable_gauss)
  then have "(\<lambda>n. of_nat n * gauss_coeff n * u ^ (n - Suc 0)) sums
               (\<Sum>n. diffs gauss_coeff n * u ^ n)"
    by (rule diffs_equiv)
  then have s1: "(\<lambda>n. 2 * u * (of_nat n * gauss_coeff n * u ^ (n - Suc 0))) sums
               (2 * u * (\<Sum>n. diffs gauss_coeff n * u ^ n))"
    by (rule sums_mult)
  have "(\<lambda>n. gauss_coeff n * u ^ n + 2 * u * (of_nat n * gauss_coeff n * u ^ (n - Suc 0))) sums
          (gauss_series u + 2 * u * (\<Sum>n. diffs gauss_coeff n * u ^ n))"
    by (rule sums_add [OF s0 s1])
  moreover have "gauss_coeff n * u ^ n + 2 * u * (of_nat n * gauss_coeff n * u ^ (n - Suc 0)) =
      (- u / 2) ^ n /\<^sub>R fact n" for n
  proof (cases n)
    case 0
    then show ?thesis by (simp add: gauss_coeff_def)
  next
    case (Suc m)
    have "gauss_coeff n * u ^ n + 2 * u * (of_nat n * gauss_coeff n * u ^ (n - Suc 0)) =
          (2 * real n + 1) * gauss_coeff n * u ^ n"
      using Suc by (simp add: algebra_simps)
    also have "\<dots> = (- 1 / 2) ^ n * u ^ n / fact n"
    proof -
      define k where "k = 2 * real n + 1"
      have "k \<noteq> 0" unfolding k_def by (simp add: add_nonneg_eq_0_iff)
      then have "k * ((- 1 / 2) ^ n / (fact n * k)) * u ^ n = (- 1 / 2) ^ n * u ^ n / fact n"
        by simp
      then show ?thesis unfolding k_def gauss_coeff_def .
    qed
    also have "\<dots> = (- u / 2) ^ n /\<^sub>R fact n"
    proof -
      have "- u / 2 = (- 1 / 2) * u" by simp
      then have e: "(- u / 2) ^ n = (- 1 / 2) ^ n * u ^ n"
        by (simp only: power_mult_distrib)
      show ?thesis
        unfolding e by (simp only: real_scaleR_def divide_inverse mult_ac)
    qed
    finally show ?thesis .
  qed
  ultimately have "(\<lambda>n. (- u / 2) ^ n /\<^sub>R fact n) sums
          (gauss_series u + 2 * u * (\<Sum>n. diffs gauss_coeff n * u ^ n))"
    by simp
  then show ?thesis
    using exp_converges [of "- u / 2"] by (rule sums_unique2)
qed

lemma DERIV_gauss_integral: "DERIV gauss_integral x :> exp (- (x\<^sup>2) / 2)"
proof -
  have "DERIV (\<lambda>x. x * gauss_series (x\<^sup>2)) x :>
          1 * gauss_series (x\<^sup>2) + ((\<Sum>n. diffs gauss_coeff n * (x\<^sup>2) ^ n) * (2 * x)) * x"
    by (rule derivative_eq_intros DERIV_chain2 [OF DERIV_gauss_series] refl | simp)+
  moreover have "1 * gauss_series (x\<^sup>2) + ((\<Sum>n. diffs gauss_coeff n * (x\<^sup>2) ^ n) * (2 * x)) * x =
      exp (- (x\<^sup>2) / 2)"
    using gauss_series_ode [of "x\<^sup>2"] by (simp add: power2_eq_square mult_ac)
  ultimately show ?thesis
    unfolding gauss_integral_def [abs_def] by simp
qed

lemma gauss_integral_0: "gauss_integral 0 = 0"
  by (simp add: gauss_integral_def)

lemma gauss_integral_minus: "gauss_integral (- x) = - gauss_integral x"
  by (simp add: gauss_integral_def)

lemma gauss_integral_mono: "a \<le> b \<Longrightarrow> gauss_integral a \<le> gauss_integral b"
  by (rule DERIV_nonneg_imp_nondecreasing) (auto intro!: exI DERIV_gauss_integral)

lemma gauss_integral_strict_mono: "a < b \<Longrightarrow> gauss_integral a < gauss_integral b"
  by (rule DERIV_pos_imp_increasing) (auto intro!: exI DERIV_gauss_integral)

lemma gauss_integral_le_arctan:
  assumes "0 \<le> x"
  shows "gauss_integral x \<le> 2 * arctan x"
proof -
  have "2 * arctan 0 - gauss_integral 0 \<le> 2 * arctan x - gauss_integral x"
  proof (rule DERIV_nonneg_imp_nondecreasing [OF assms])
    fix t :: real
    have "DERIV (\<lambda>t. 2 * arctan t) t :> 2 * inverse (1 + t\<^sup>2)"
      by (rule DERIV_cmult) (rule DERIV_arctan)
    then have d: "DERIV (\<lambda>t. 2 * arctan t - gauss_integral t) t :>
               2 * inverse (1 + t\<^sup>2) - exp (- (t\<^sup>2) / 2)"
      by (rule DERIV_diff) (rule DERIV_gauss_integral)
    have "1 + t\<^sup>2 / 2 \<le> exp (t\<^sup>2 / 2)"
      by (rule exp_ge_add_one_self)
    then have "exp (- (t\<^sup>2) / 2) \<le> 1 / (1 + t\<^sup>2 / 2)"
      by (simp add: exp_minus field_simps add_pos_nonneg)
    also have "\<dots> \<le> 2 * inverse (1 + t\<^sup>2)"
    proof -
      have p: "0 < 1 + t\<^sup>2" "0 < 1 + t\<^sup>2 / 2"
        by (simp_all add: add_pos_nonneg)
      have "1 * (1 + t\<^sup>2) \<le> 2 * (1 + t\<^sup>2 / 2)" by simp
      then have "1 / (1 + t\<^sup>2 / 2) \<le> 2 / (1 + t\<^sup>2)"
        using p by (simp only: frac_le_eq divide_le_cancel) (simp add: field_simps)
      then show ?thesis by (simp only: divide_inverse)
    qed
    finally have "0 \<le> 2 * inverse (1 + t\<^sup>2) - exp (- (t\<^sup>2) / 2)" by simp
    with d show "\<exists>y. DERIV (\<lambda>t. 2 * arctan t - gauss_integral t) t :> y \<and> 0 \<le> y"
      by blast
  qed
  then show ?thesis by (simp add: gauss_integral_0)
qed

lemma gauss_integral_le_pi: "gauss_integral x \<le> pi"
proof (cases "0 \<le> x")
  case True
  have "2 * arctan x \<le> pi" using arctan_ubound [of x] by simp
  with gauss_integral_le_arctan [OF True] show ?thesis by simp
next
  case False
  then have "gauss_integral x \<le> gauss_integral 0"
    by (intro gauss_integral_mono) simp
  then have "gauss_integral x \<le> 0" by (simp add: gauss_integral_0)
  then show ?thesis using pi_ge_zero by linarith
qed

lemma bdd_above_gauss_integral: "bdd_above (range gauss_integral)"
  by (rule bdd_aboveI [of _ pi]) (auto simp: gauss_integral_le_pi)

lemma gauss_integral_le_half_mass: "gauss_integral x \<le> gauss_half_mass"
  unfolding gauss_half_mass_def
  by (rule cSUP_upper [OF UNIV_I bdd_above_gauss_integral])

lemma gauss_half_mass_pos: "0 < gauss_half_mass"
proof -
  have "gauss_integral 0 < gauss_integral 1"
    by (rule gauss_integral_strict_mono) simp
  with gauss_integral_le_half_mass [of 1] show ?thesis
    by (simp add: gauss_integral_0)
qed

lemma std_norm_cdf_complement: "std_norm_cdf (- x) = 1 - std_norm_cdf x"
  by (simp add: std_norm_cdf_def gauss_integral_minus)

lemma std_norm_cdf_range: "0 \<le> std_norm_cdf x \<and> std_norm_cdf x \<le> 1"
proof -
  have u: "gauss_integral x \<le> gauss_half_mass"
    by (rule gauss_integral_le_half_mass)
  have "gauss_integral (- x) \<le> gauss_half_mass"
    by (rule gauss_integral_le_half_mass)
  then have l: "- gauss_half_mass \<le> gauss_integral x"
    by (simp add: gauss_integral_minus)
  from u l gauss_half_mass_pos show ?thesis
    by (simp add: std_norm_cdf_def field_simps)
qed

lemma DERIV_std_norm_cdf: "DERIV std_norm_cdf x :> std_norm_pdf x"
  unfolding std_norm_cdf_def [abs_def] std_norm_pdf_def
  using gauss_half_mass_pos
  by (auto intro!: derivative_eq_intros DERIV_gauss_integral)


lemma std_norm_cdf_0: "std_norm_cdf 0 = 1 / 2"
  by (simp add: std_norm_cdf_def gauss_integral_0)

lemma std_norm_cdf_mono: "a \<le> b \<Longrightarrow> std_norm_cdf a \<le> std_norm_cdf b"
  using gauss_integral_mono [of a b] gauss_half_mass_pos
  by (simp add: std_norm_cdf_def divide_right_mono)

lemma std_norm_cdf_sup:
  assumes "0 < e"
  shows "\<exists>x. 1 - e < std_norm_cdf x"
proof -
  have "gauss_half_mass - 2 * gauss_half_mass * e < (SUP x. gauss_integral x)"
    using assms gauss_half_mass_pos by (simp add: gauss_half_mass_def [symmetric])
  then obtain x where x: "gauss_half_mass - 2 * gauss_half_mass * e < gauss_integral x"
    using bdd_above_gauss_integral by (auto simp: less_cSUP_iff)
  have "1 - e = 1 / 2 + (gauss_half_mass - 2 * gauss_half_mass * e) / (2 * gauss_half_mass)"
    using gauss_half_mass_pos by (simp add: field_simps)
  also have "\<dots> < 1 / 2 + gauss_integral x / (2 * gauss_half_mass)"
    using x gauss_half_mass_pos by (simp add: divide_strict_right_mono)
  finally show ?thesis unfolding std_norm_cdf_def by blast
qed

text \<open>
  Two bounds for concrete values: the integrand is at most 1, and at least a half on
  \<open>[0, 1]\<close>, so the half mass is at least a half and \<open>cdf(x) \<le> 1/2 + x\<close> for \<open>x \<ge> 0\<close>.
\<close>

lemma gauss_integral_le_self:
  assumes "0 \<le> x"
  shows "gauss_integral x \<le> x"
proof -
  have "0 - gauss_integral 0 \<le> x - gauss_integral x"
  proof (rule DERIV_nonneg_imp_nondecreasing [of 0 x "\<lambda>t. t - gauss_integral t"])
    show "0 \<le> x" by (rule assms)
  next
    fix t :: real
    have d: "DERIV (\<lambda>t. t - gauss_integral t) t :> 1 - exp (- (t\<^sup>2) / 2)"
      by (rule DERIV_diff) (rule DERIV_ident, rule DERIV_gauss_integral)
    have "0 \<le> 1 - exp (- (t\<^sup>2) / 2)" by simp
    with d show "\<exists>y. DERIV (\<lambda>t. t - gauss_integral t) t :> y \<and> 0 \<le> y"
      by blast
  qed
  then show ?thesis by (simp add: gauss_integral_0)
qed

lemma gauss_half_mass_ge_half: "1 / 2 \<le> gauss_half_mass"
proof -
  have "gauss_integral 0 - 0 / 2 \<le> gauss_integral 1 - 1 / 2"
  proof (rule DERIV_nonneg_imp_nondecreasing [of 0 1 "\<lambda>t. gauss_integral t - t / 2"])
    show "(0::real) \<le> 1" by simp
  next
    fix t :: real
    assume t: "0 \<le> t" "t \<le> 1"
    have "DERIV (\<lambda>t. t / 2) t :> 1 / 2"
      by (rule DERIV_cdivide) (rule DERIV_ident)
    with DERIV_gauss_integral
    have d: "DERIV (\<lambda>t. gauss_integral t - t / 2) t :> exp (- (t\<^sup>2) / 2) - 1 / 2"
      by (rule DERIV_diff)
    have "t\<^sup>2 \<le> 1" using t by (simp add: power_le_one)
    then have "1 / 2 \<le> 1 + - (t\<^sup>2) / 2" by simp
    also have "\<dots> \<le> exp (- (t\<^sup>2) / 2)" by (rule exp_ge_add_one_self)
    finally have "0 \<le> exp (- (t\<^sup>2) / 2) - 1 / 2" by simp
    with d show "\<exists>y. DERIV (\<lambda>t. gauss_integral t - t / 2) t :> y \<and> 0 \<le> y"
      by blast
  qed
  then have "1 / 2 \<le> gauss_integral 1" by (simp add: gauss_integral_0)
  with gauss_integral_le_half_mass [of 1] show ?thesis by simp
qed

lemma std_norm_cdf_ge_half: "0 \<le> x \<Longrightarrow> 1 / 2 \<le> std_norm_cdf x"
  using std_norm_cdf_mono [of 0 x] by (simp add: std_norm_cdf_0)

lemma std_norm_cdf_le:
  assumes "0 \<le> x"
  shows "std_norm_cdf x \<le> 1 / 2 + x"
proof -
  have g: "0 \<le> gauss_integral x"
    using gauss_integral_mono [OF assms] by (simp add: gauss_integral_0)
  have "gauss_integral x / (2 * gauss_half_mass) \<le> gauss_integral x / 1"
    using g gauss_half_mass_ge_half by (intro divide_left_mono) simp_all
  also have "\<dots> \<le> x" using gauss_integral_le_self [OF assms] by simp
  finally show ?thesis by (simp add: std_norm_cdf_def)
qed

section \<open>Properties of black_scholes.py\<close>

subsection \<open>Results within the range\<close>

lemma float_underflow_pos: "0 < float_underflow"
  by (simp add: float_underflow_def)

lemma float_underflow_lt: "float_underflow < 1 / 1024"
  by (simp add: float_underflow_def)

lemma float_overflow_gt: "1024 < float_overflow"
  by (simp add: float_overflow_def)

lemma double_of_in_range: "in_range x \<Longrightarrow> double_of x = Fin x"
  using float_underflow_pos float_overflow_gt
  by (auto simp: in_range_def double_of_def overflow_of_def)

lemma overflow_of_no_overflow: "no_overflow x \<Longrightarrow> overflow_of x = Fin x"
  by (auto simp: no_overflow_def overflow_of_def)

lemma in_range_minus: "in_range (- x) = in_range x"
  by (simp add: in_range_def)

lemma in_range_between:
  assumes "l \<le> x" "x \<le> u" "1 / 1024 \<le> l" "u \<le> 1024"
  shows "in_range x"
  using assms float_underflow_lt float_overflow_gt unfolding in_range_def by auto

lemma no_overflow_between:
  assumes "l \<le> x" "x \<le> u" "- 1024 \<le> l" "u \<le> 1024"
  shows "no_overflow x"
  using assms float_overflow_gt unfolding no_overflow_def by linarith

text \<open>
  On positive finite arguments whose intermediate results are within the range, \<open>_d1\<close>
  and \<open>_d2\<close> raise nothing and return the values of the specification.
\<close>

lemma d1_Fin:
  assumes "0 < S" "0 < K" "0 < T" "0 < sigma" "d1_in_range S K T r sigma"
  shows "d1 (Fin S) (Fin K) (Fin T) (Fin r) (Fin sigma) = Inr (Fin (spec_d1 S K T r sigma))"
proof -
  from assms(5) have q: "double_of (S / K) = Fin (S / K)"
    and s: "double_of (sigma\<^sup>2) = Fin (sigma\<^sup>2)" "\<not> float_overflow \<le> sigma\<^sup>2"
    and h: "double_of (sigma\<^sup>2 / 2) = Fin (sigma\<^sup>2 / 2)"
    and a: "overflow_of (r + sigma\<^sup>2 / 2) = Fin (r + sigma\<^sup>2 / 2)"
    and m: "double_of ((r + sigma\<^sup>2 / 2) * T) = Fin ((r + sigma\<^sup>2 / 2) * T)"
    and n: "overflow_of (ln (S / K) + (r + sigma\<^sup>2 / 2) * T) =
              Fin (ln (S / K) + (r + sigma\<^sup>2 / 2) * T)"
    and d: "double_of (sigma * sqrt T) = Fin (sigma * sqrt T)"
    and e: "double_of (spec_d1 S K T r sigma) = Fin (spec_d1 S K T r sigma)"
    by (simp_all add: d1_in_range_def double_of_in_range overflow_of_no_overflow)
       (simp add: in_range_def)
  from assms have k: "K \<noteq> 0" and qp: "0 < S / K" and t: "0 \<le> T" and z: "sigma * sqrt T \<noteq> 0"
    by simp_all
  show ?thesis
    unfolding d1_def py_truediv_def
    using k qp t z q s h a m n d e [unfolded spec_d1_def]
    by (simp add: spec_d1_def)
qed

lemma d2_Fin:
  assumes "0 < S" "0 < K" "0 < T" "0 < sigma" "d2_in_range S K T r sigma"
  shows "d2 (Fin S) (Fin K) (Fin T) (Fin r) (Fin sigma) = Inr (Fin (spec_d2 S K T r sigma))"
proof -
  from assms(5) have r1: "d1_in_range S K T r sigma"
    and d: "double_of (sigma * sqrt T) = Fin (sigma * sqrt T)"
    and o: "overflow_of (spec_d1 S K T r sigma - sigma * sqrt T) = Fin (spec_d2 S K T r sigma)"
    by (simp_all add: d2_in_range_def d1_in_range_def double_of_in_range
          overflow_of_no_overflow spec_d2_def)
  from assms have t: "0 \<le> T" by simp
  show ?thesis
    unfolding d2_def d1_Fin [OF assms(1-4) r1]
    using t d o by (simp add: fsub_def)
qed

lemma discount_in_rangeD:
  assumes "discount_in_range K T r"
  shows "double_of (- (r * T)) = Fin (- (r * T))"
    and "double_of (exp (- (r * T))) = Fin (exp (- (r * T)))"
    and "double_of (K * exp (- (r * T))) = Fin (K * exp (- (r * T)))"
  using assms by (simp_all add: discount_in_range_def double_of_in_range in_range_minus)

lemma call_value_Fin:
  assumes "0 < S" "0 < K" "0 < T" "0 < sigma" "call_value_in_range S K T r sigma"
  shows "call_value (Fin S) (Fin K) (Fin T) (Fin r) (Fin sigma) =
           Inr (Fin (S * std_norm_cdf (spec_d1 S K T r sigma) -
                     K * exp (- (r * T)) * std_norm_cdf (spec_d2 S K T r sigma)))"
proof -
  from assms(5) have r2: "d2_in_range S K T r sigma" and rd: "discount_in_range K T r"
    and a: "double_of (std_norm_cdf (spec_d1 S K T r sigma)) =
              Fin (std_norm_cdf (spec_d1 S K T r sigma))"
    and b: "double_of (S * std_norm_cdf (spec_d1 S K T r sigma)) =
              Fin (S * std_norm_cdf (spec_d1 S K T r sigma))"
    and c: "double_of (std_norm_cdf (spec_d2 S K T r sigma)) =
              Fin (std_norm_cdf (spec_d2 S K T r sigma))"
    and d: "double_of (K * exp (- (r * T)) * std_norm_cdf (spec_d2 S K T r sigma)) =
              Fin (K * exp (- (r * T)) * std_norm_cdf (spec_d2 S K T r sigma))"
    and e: "overflow_of (S * std_norm_cdf (spec_d1 S K T r sigma) -
                         K * exp (- (r * T)) * std_norm_cdf (spec_d2 S K T r sigma)) =
              Fin (S * std_norm_cdf (spec_d1 S K T r sigma) -
                   K * exp (- (r * T)) * std_norm_cdf (spec_d2 S K T r sigma))"
    by (simp_all add: call_value_in_range_def double_of_in_range overflow_of_no_overflow)
  from r2 have r1: "d1_in_range S K T r sigma" by (simp add: d2_in_range_def)
  show ?thesis
    unfolding call_value_def d1_Fin [OF assms(1-4) r1] d2_Fin [OF assms(1-4) r2]
    using discount_in_rangeD [OF rd] a b c d e by (simp add: fsub_def)
qed

lemma put_value_Fin:
  assumes "0 < S" "0 < K" "0 < T" "0 < sigma" "put_value_in_range S K T r sigma"
  shows "put_value (Fin S) (Fin K) (Fin T) (Fin r) (Fin sigma) =
           Inr (Fin (K * exp (- (r * T)) * std_norm_cdf (- spec_d2 S K T r sigma) -
                     S * std_norm_cdf (- spec_d1 S K T r sigma)))"
proof -
  from assms(5) have r2: "d2_in_range S K T r sigma" and rd: "discount_in_range K T r"
    and a: "double_of (std_norm_cdf (- spec_d2 S K T r sigma)) =
              Fin (std_norm_cdf (- spec_d2 S K T r sigma))"
    and b: "double_of (K * exp (- (r * T)) * std_norm_cdf (- spec_d2 S K T r sigma)) =
              Fin (K * exp (- (r * T)) * std_norm_cdf (- spec_d2 S K T r sigma))"
    and c: "double_of (std_norm_cdf (- spec_d1 S K T r sigma)) =
              Fin (std_norm_cdf (- spec_d1 S K T r sigma))"
    and d: "double_of (S * std_norm_cdf (- spec_d1 S K T r sigma)) =
              Fin (S * std_norm_cdf (- spec_d1 S K T r sigma))"
    and e: "overflow_of (K * exp (- (r * T)) * std_norm_cdf (- spec_d2 S K T r sigma) -
                         S * std_norm_cdf (- spec_d1 S K T r sigma)) =
              Fin (K * exp (- (r * T)) * std_norm_cdf (- spec_d2 S K T r sigma) -
                   S * std_norm_cdf (- spec_d1 S K T r sigma))"
    by (simp_all add: put_value_in_range_def double_of_in_range overflow_of_no_overflow)
  from r2 have r1: "d1_in_range S K T r sigma" by (simp add: d2_in_range_def)
  show ?thesis
    unfolding put_value_def d1_Fin [OF assms(1-4) r1] d2_Fin [OF assms(1-4) r2]
    using discount_in_rangeD [OF rd] a b c d e by (simp add: fsub_def mult.commute [of _ K])
qed

subsection \<open>The reference case\<close>

text \<open>
  At the money, with \<open>S = K = 100\<close>, \<open>T = 1\<close>, \<open>r = 0.05\<close> and \<open>sigma = 0.2\<close>: \<open>d1 = 0.35\<close> and
  \<open>d2 = 0.15\<close>, and every intermediate result is within the range.
\<close>

lemma spec_d1_example: "spec_d1 100 100 1 0.05 0.2 = 0.35"
  by (simp add: spec_d1_def power2_eq_square)

lemma spec_d2_example: "spec_d2 100 100 1 0.05 0.2 = 0.15"
  unfolding spec_d2_def spec_d1_example by simp

lemma d1_in_range_example: "d1_in_range 100 100 1 0.05 0.2"
proof -
  have "in_range ((100::real) / 100)"
    by (rule in_range_between [of 1 _ 1]) simp_all
  moreover have "in_range ((0.2::real)\<^sup>2)"
    by (rule in_range_between [of "0.04" _ "0.04"]) (simp_all add: power2_eq_square)
  moreover have "in_range ((0.2::real)\<^sup>2 / 2)"
    by (rule in_range_between [of "0.02" _ "0.02"]) (simp_all add: power2_eq_square)
  moreover have "no_overflow (0.05 + (0.2::real)\<^sup>2 / 2)"
    by (rule no_overflow_between [of "0.07" _ "0.07"]) (simp_all add: power2_eq_square)
  moreover have "in_range ((0.05 + (0.2::real)\<^sup>2 / 2) * 1)"
    by (rule in_range_between [of "0.07" _ "0.07"]) (simp_all add: power2_eq_square)
  moreover have "no_overflow (ln ((100::real) / 100) + (0.05 + (0.2::real)\<^sup>2 / 2) * 1)"
    by (rule no_overflow_between [of "0.07" _ "0.07"]) (simp_all add: power2_eq_square)
  moreover have "in_range ((0.2::real) * sqrt 1)"
    by (rule in_range_between [of "0.2" _ "0.2"]) simp_all
  moreover have "in_range (0.35::real)"
    by (rule in_range_between [of "0.35" _ "0.35"]) simp_all
  ultimately show ?thesis
    unfolding d1_in_range_def spec_d1_example by (intro conjI)
qed

lemma d2_in_range_example: "d2_in_range 100 100 1 0.05 0.2"
proof -
  have "no_overflow (0.15::real)"
    by (rule no_overflow_between [of "0.15" _ "0.15"]) simp_all
  with d1_in_range_example show ?thesis
    unfolding d2_in_range_def spec_d2_example by (intro conjI)
qed

lemma discount_example:
  "19 / 20 \<le> exp (- (0.05 * 1 :: real))" "exp (- (0.05 * 1 :: real)) \<le> 1"
  "95 \<le> 100 * exp (- (0.05 * 1 :: real))" "100 * exp (- (0.05 * 1 :: real)) \<le> 100"
  using exp_ge_add_one_self [of "- (0.05 * 1 :: real)"] by simp_all

lemma discount_in_range_example: "discount_in_range 100 1 0.05"
proof -
  have "in_range (0.05 * 1 :: real)"
    by (rule in_range_between [of "0.05" _ "0.05"]) simp_all
  moreover have "in_range (exp (- (0.05 * 1 :: real)))"
    by (rule in_range_between [OF discount_example(1,2)]) simp_all
  moreover have "in_range (100 * exp (- (0.05 * 1 :: real)))"
    by (rule in_range_between [OF discount_example(3,4)]) simp_all
  ultimately show ?thesis
    unfolding discount_in_range_def by (intro conjI)
qed

lemma cdf_example:
  "1 / 2 \<le> std_norm_cdf 0.35" "std_norm_cdf 0.35 \<le> 17 / 20"
  "1 / 2 \<le> std_norm_cdf 0.15" "std_norm_cdf 0.15 \<le> 13 / 20"
  "3 / 20 \<le> std_norm_cdf (- 0.35)" "std_norm_cdf (- 0.35) \<le> 1 / 2"
  "7 / 20 \<le> std_norm_cdf (- 0.15)" "std_norm_cdf (- 0.15) \<le> 1 / 2"
  using std_norm_cdf_ge_half [of "0.35"] std_norm_cdf_le [of "0.35"]
    std_norm_cdf_ge_half [of "0.15"] std_norm_cdf_le [of "0.15"]
  by (simp_all add: std_norm_cdf_complement)

lemma product_example:
  fixes k p :: real
  assumes "95 \<le> k" "k \<le> 100" "l \<le> p" "p \<le> 1" "0 \<le> l"
  shows "95 * l \<le> k * p" "k * p \<le> 100"
proof -
  show "95 * l \<le> k * p"
    using assms by (intro mult_mono) simp_all
  have "k * p \<le> 100 * 1"
    using assms by (intro mult_mono) simp_all
  then show "k * p \<le> 100" by simp
qed

lemma call_value_in_range_example: "call_value_in_range 100 100 1 0.05 0.2"
proof -
  have a: "50 \<le> 100 * std_norm_cdf 0.35" "100 * std_norm_cdf 0.35 \<le> 85"
    using cdf_example(1,2) by simp_all
  have p: "std_norm_cdf 0.15 \<le> 1"
    using std_norm_cdf_range [of "0.15"] by simp
  have b: "95 * (1 / 2) \<le> 100 * exp (- (0.05 * 1)) * std_norm_cdf 0.15"
    "100 * exp (- (0.05 * 1)) * std_norm_cdf 0.15 \<le> 100"
    by (rule product_example [OF discount_example(3,4) cdf_example(3) p], simp)+
  have "in_range (std_norm_cdf 0.35)"
    by (rule in_range_between [OF cdf_example(1,2)]) simp_all
  moreover have "in_range (100 * std_norm_cdf 0.35)"
    by (rule in_range_between [OF a]) simp_all
  moreover have "in_range (std_norm_cdf 0.15)"
    by (rule in_range_between [OF cdf_example(3,4)]) simp_all
  moreover have "in_range (100 * exp (- (0.05 * 1)) * std_norm_cdf 0.15)"
    by (rule in_range_between [OF b]) simp_all
  moreover have "no_overflow (100 * std_norm_cdf 0.35 -
                              100 * exp (- (0.05 * 1)) * std_norm_cdf 0.15)"
    using a b float_overflow_gt unfolding no_overflow_def by linarith
  ultimately show ?thesis
    unfolding call_value_in_range_def spec_d1_example spec_d2_example
    by (intro conjI d2_in_range_example discount_in_range_example)
qed

lemma put_value_in_range_example: "put_value_in_range 100 100 1 0.05 0.2"
proof -
  have a: "15 \<le> 100 * std_norm_cdf (- 0.35)" "100 * std_norm_cdf (- 0.35) \<le> 50"
    using cdf_example(5,6) by simp_all
  have p: "std_norm_cdf (- 0.15) \<le> 1"
    using std_norm_cdf_range [of "- 0.15"] by simp
  have b: "95 * (7 / 20) \<le> 100 * exp (- (0.05 * 1)) * std_norm_cdf (- 0.15)"
    "100 * exp (- (0.05 * 1)) * std_norm_cdf (- 0.15) \<le> 100"
    by (rule product_example [OF discount_example(3,4) cdf_example(7) p], simp)+
  have "in_range (std_norm_cdf (- 0.15))"
    by (rule in_range_between [OF cdf_example(7,8)]) simp_all
  moreover have "in_range (100 * exp (- (0.05 * 1)) * std_norm_cdf (- 0.15))"
    by (rule in_range_between [OF b]) simp_all
  moreover have "in_range (std_norm_cdf (- 0.35))"
    by (rule in_range_between [OF cdf_example(5,6)]) simp_all
  moreover have "in_range (100 * std_norm_cdf (- 0.35))"
    by (rule in_range_between [OF a]) simp_all
  moreover have "no_overflow (100 * exp (- (0.05 * 1)) * std_norm_cdf (- 0.15) -
                              100 * std_norm_cdf (- 0.35))"
    using a b float_overflow_gt unfolding no_overflow_def by linarith
  ultimately show ?thesis
    unfolding put_value_in_range_def spec_d1_example spec_d2_example
    by (intro conjI d2_in_range_example discount_in_range_example)
qed

subsection \<open>The value of a call\<close>

text \<open>
  C3 as stated fails. With \<open>S = K = 100\<close>, \<open>T = 1\<close>, \<open>r = 0.05\<close> and the volatility
  \<open>sigma = 2\<^sup>6\<^sup>0\<^sup>0\<close>, all positive, \<open>sigma ** 2\<close> is out of the range of the doubles and
  \<open>call_value\<close> raises \<open>OverflowError\<close> instead of returning the value of the formula.
\<close>

theorem call_value_overflow:
  "call_value (Fin 100) (Fin 100) (Fin 1) (Fin 0.05) (Fin (2 ^ 600)) = Inl OverflowError"
  by (simp add: call_value_def d1_def py_truediv_def float_overflow_def)

text \<open>
  C3, within the range of the doubles. For \<open>S > 0\<close>, \<open>K > 0\<close>, \<open>T > 0\<close>, any \<open>r\<close> and
  \<open>sigma > 0\<close> such that no intermediate result of the evaluation overflows or
  underflows, \<open>call_value\<close> returns \<open>S * Phi(d1) - K * exp(-r T) * Phi(d2)\<close>, where
  \<open>d1 = (ln(S / K) + (r + sigma\<^sup>2 / 2) T) / (sigma * sqrt T)\<close>, \<open>d2 = d1 - sigma * sqrt T\<close>
  and \<open>Phi\<close> is the standard normal cdf.
\<close>

theorem call_value_formula:
  assumes "0 < S" "0 < K" "0 < T" "0 < sigma"
    and "call_value_in_range S K T r sigma"
  shows "call_value (Fin S) (Fin K) (Fin T) (Fin r) (Fin sigma) =
           Inr (Fin (S * std_norm_cdf (spec_d1 S K T r sigma) -
                     K * exp (- (r * T)) * std_norm_cdf (spec_d2 S K T r sigma)))"
  using assms by (rule call_value_Fin)

theorem call_value_formula_witness:
  "(0::real) < 100 \<and> (0::real) < 1 \<and> (0::real) < 0.2 \<and>
   call_value_in_range 100 100 1 0.05 0.2 \<and>
   call_value (Fin 100) (Fin 100) (Fin 1) (Fin 0.05) (Fin 0.2) =
     Inr (Fin (100 * std_norm_cdf 0.35 - 100 * exp (- (0.05 * 1)) * std_norm_cdf 0.15))"
proof -
  have h: "(0::real) < 100" "(0::real) < 1" "(0::real) < 0.2" by simp_all
  show ?thesis
    using h call_value_in_range_example
      call_value_formula [OF h(1) h(1) h(2) h(3) call_value_in_range_example]
    unfolding spec_d1_example spec_d2_example by (intro conjI)
qed

subsection \<open>Put-call parity\<close>

text \<open>
  C1 as stated fails. With \<open>S = K = 100\<close>, \<open>T = 1\<close>, \<open>r = 0.05\<close> and \<open>sigma = 2\<^sup>5\<^sup>1\<^sup>2\<close>, all
  positive, both functions raise \<open>OverflowError\<close> at \<open>sigma ** 2\<close>: there are no two values
  whose difference could be \<open>S - K * exp(-r T)\<close>.
\<close>

theorem put_call_parity_overflow:
  "call_value (Fin 100) (Fin 100) (Fin 1) (Fin 0.05) (Fin (2 ^ 512)) = Inl OverflowError \<and>
   put_value (Fin 100) (Fin 100) (Fin 1) (Fin 0.05) (Fin (2 ^ 512)) = Inl OverflowError"
  by (simp add: call_value_def put_value_def d2_def d1_def py_truediv_def float_overflow_def)

text \<open>
  C1, within the range of the doubles. For \<open>S > 0\<close>, \<open>K > 0\<close>, \<open>T > 0\<close>, any \<open>r\<close> and
  \<open>sigma > 0\<close> such that no intermediate result of either evaluation overflows or
  underflows, both functions return finite values and
  \<open>call_value - put_value = S - K * exp(-r T)\<close>, by \<open>Phi(-x) = 1 - Phi(x)\<close> at \<open>d1\<close> and \<open>d2\<close>.
  The equation is exact in the arithmetic of the model, which does not round inside the
  range; it says nothing of the rounding errors of the doubles.
\<close>

theorem put_call_parity:
  assumes "0 < S" "0 < K" "0 < T" "0 < sigma"
    and "call_value_in_range S K T r sigma" and "put_value_in_range S K T r sigma"
  shows "\<exists>c p. call_value (Fin S) (Fin K) (Fin T) (Fin r) (Fin sigma) = Inr (Fin c) \<and>
               put_value (Fin S) (Fin K) (Fin T) (Fin r) (Fin sigma) = Inr (Fin p) \<and>
               c - p = S - K * exp (- (r * T))"
proof -
  define a where "a = spec_d1 S K T r sigma"
  define b where "b = spec_d2 S K T r sigma"
  define c where "c = S * std_norm_cdf a - K * exp (- (r * T)) * std_norm_cdf b"
  define p where "p = K * exp (- (r * T)) * std_norm_cdf (- b) - S * std_norm_cdf (- a)"
  have cv: "call_value (Fin S) (Fin K) (Fin T) (Fin r) (Fin sigma) = Inr (Fin c)"
    unfolding c_def a_def b_def using assms(1-5) by (rule call_value_Fin)
  have pv: "put_value (Fin S) (Fin K) (Fin T) (Fin r) (Fin sigma) = Inr (Fin p)"
    unfolding p_def a_def b_def using assms(1-4,6) by (rule put_value_Fin)
  have "c - p = S - K * exp (- (r * T))"
    unfolding c_def p_def std_norm_cdf_complement by (simp add: algebra_simps)
  with cv pv show ?thesis by blast
qed

theorem put_call_parity_witness:
  "(0::real) < 100 \<and> (0::real) < 1 \<and> (0::real) < 0.2 \<and>
   call_value_in_range 100 100 1 0.05 0.2 \<and> put_value_in_range 100 100 1 0.05 0.2 \<and>
   (\<exists>c p. call_value (Fin 100) (Fin 100) (Fin 1) (Fin 0.05) (Fin 0.2) = Inr (Fin c) \<and>
          put_value (Fin 100) (Fin 100) (Fin 1) (Fin 0.05) (Fin 0.2) = Inr (Fin p) \<and>
          c - p = 100 - 100 * exp (- (0.05 * 1)))"
proof -
  have h: "(0::real) < 100" "(0::real) < 1" "(0::real) < 0.2" by simp_all
  show ?thesis
    using h call_value_in_range_example put_value_in_range_example
      put_call_parity [OF h(1) h(1) h(2) h(3) call_value_in_range_example
        put_value_in_range_example]
    by (intro conjI)
qed

subsection \<open>The Greeks\<close>

text \<open>
  C6. For every input, \<open>put_delta\<close> is \<open>call_delta\<close> minus one: it raises what \<open>call_delta\<close>
  raises, and otherwise returns the value of \<open>call_delta\<close> with 1 subtracted.
\<close>

theorem put_delta_is_call_delta_minus_one:
  "put_delta S K T r sigma =
     map_sum (\<lambda>e. e) (\<lambda>v. fsub v (Fin 1)) (call_delta S K T r sigma)"
  by (simp add: put_delta_def split: sum.splits)

text \<open>C7. For every input, \<open>put_vega\<close> is \<open>call_vega\<close>.\<close>

theorem put_vega_is_call_vega:
  "put_vega S K T r sigma = call_vega S K T r sigma"
  by (simp add: put_vega_def)

text \<open>
  C9 as stated fails. With \<open>S = 2\<^sup>-\<^sup>1\<^sup>0\<^sup>0\<^sup>0\<close>, \<open>K = 2\<^sup>1\<^sup>0\<^sup>0\<^sup>0\<close>, \<open>T = 16\<close>, \<open>r = 2\<^sup>1\<^sup>0\<^sup>2\<^sup>3\<close> and
  \<open>sigma = 1\<close>, all positive doubles, \<open>S / K\<close> underflows to zero, whose logarithm is
  \<open>-inf\<close>, and \<open>(r + sigma\<^sup>2 / 2) * T\<close> overflows to \<open>inf\<close>: their sum is NaN, and so are
  \<open>d1\<close>, \<open>call_delta\<close> and \<open>put_delta\<close>, which lie in no interval.
\<close>

theorem delta_nan:
  "call_delta (Fin (1 / 2 ^ 1000)) (Fin (2 ^ 1000)) (Fin 16) (Fin (2 ^ 1023)) (Fin 1) = Inr NaN \<and>
   put_delta (Fin (1 / 2 ^ 1000)) (Fin (2 ^ 1000)) (Fin 16) (Fin (2 ^ 1023)) (Fin 1) = Inr NaN"
  by (simp add: put_delta_def call_delta_def d1_def py_truediv_def double_of_def
        overflow_of_def float_overflow_def float_underflow_def fsub_def)

text \<open>
  C9, where \<open>d1\<close> is a number. For every input on which \<open>_d1\<close> raises nothing and returns
  a value other than NaN, \<open>call_delta\<close> returns a finite value in \<open>[0, 1]\<close> and \<open>put_delta\<close>
  returns that value minus one, which lies in \<open>[-1, 0]\<close>.
\<close>

theorem delta_range:
  assumes "d1 S K T r sigma = Inr a" and "a \<noteq> NaN"
  shows "\<exists>c. call_delta S K T r sigma = Inr (Fin c) \<and> 0 \<le> c \<and> c \<le> 1 \<and>
             put_delta S K T r sigma = Inr (Fin (c - 1)) \<and> - 1 \<le> c - 1 \<and> c - 1 \<le> 0"
proof -
  have "\<exists>c. norm_cdf a = Fin c \<and> 0 \<le> c \<and> c \<le> 1"
  proof (cases a)
    case (Fin x)
    have "double_of (std_norm_cdf x) = Fin 0 \<or> double_of (std_norm_cdf x) = Fin (std_norm_cdf x)"
      using std_norm_cdf_range [of x] float_overflow_gt
      by (auto simp: double_of_def overflow_of_def)
    with Fin std_norm_cdf_range [of x] show ?thesis by auto
  qed (use assms(2) in simp_all)
  then obtain c where c: "norm_cdf a = Fin c" "0 \<le> c" "c \<le> 1" by blast
  then have "overflow_of (c - 1) = Fin (c - 1)"
    using float_overflow_gt by (intro overflow_of_no_overflow) (simp add: no_overflow_def)
  with c assms(1) show ?thesis
    by (simp add: call_delta_def put_delta_def fsub_def)
qed

theorem delta_range_witness:
  "d1 (Fin 100) (Fin 100) (Fin 1) (Fin 0.05) (Fin 0.2) = Inr (Fin 0.35) \<and> Fin 0.35 \<noteq> NaN \<and>
   (\<exists>c. call_delta (Fin 100) (Fin 100) (Fin 1) (Fin 0.05) (Fin 0.2) = Inr (Fin c) \<and>
        0 \<le> c \<and> c \<le> 1 \<and>
        put_delta (Fin 100) (Fin 100) (Fin 1) (Fin 0.05) (Fin 0.2) = Inr (Fin (c - 1)) \<and>
        - 1 \<le> c - 1 \<and> c - 1 \<le> 0)"
proof -
  have h: "(0::real) < 100" "(0::real) < 1" "(0::real) < 0.2" by simp_all
  have d: "d1 (Fin 100) (Fin 100) (Fin 1) (Fin 0.05) (Fin 0.2) = Inr (Fin 0.35)"
    using d1_Fin [OF h(1) h(1) h(2) h(3) d1_in_range_example]
    unfolding spec_d1_example .
  have n: "Fin 0.35 \<noteq> NaN" by simp
  show ?thesis
    using d n delta_range [OF d n] by (intro conjI)
qed

subsection \<open>Exceptions\<close>

text \<open>
  C8 as stated fails: with the strike \<open>K = 0.0\<close> and every other argument in its domain,
  \<open>call_value\<close> raises \<open>ZeroDivisionError\<close> instead of returning a number.
\<close>

theorem zero_strike_raises:
  "call_value (Fin 100) (Fin 0) (Fin 1) (Fin 0.05) (Fin 0.2) = Inl ZeroDivisionError"
  by (simp add: call_value_def d1_def py_truediv_def)

text \<open>
  C8, as the code has it on Python floats. Each of the six functions has two error
  paths, both in \<open>_d1\<close>: it raises \<open>ZeroDivisionError\<close> when the strike \<open>K\<close> is zero, at
  \<open>S / K\<close>, and otherwise \<open>OverflowError\<close> when \<open>sigma\<close> is finite and its square is out of
  range, at \<open>sigma ** 2\<close>. On every other input, non-positive \<open>T\<close>, \<open>sigma\<close> and \<open>S\<close> and
  negative \<open>K\<close> included, it returns a float (finite, infinite or NaN). Nothing is
  validated.
\<close>

theorem option_pricer_error_path:
  "(case call_value S K T r sigma of
      Inl e \<Rightarrow> e = (if K = Fin 0 then ZeroDivisionError else OverflowError) \<and>
               (K = Fin 0 \<or> square_overflows sigma)
    | Inr v \<Rightarrow> K \<noteq> Fin 0 \<and> \<not> square_overflows sigma) \<and>
   (case put_value S K T r sigma of
      Inl e \<Rightarrow> e = (if K = Fin 0 then ZeroDivisionError else OverflowError) \<and>
               (K = Fin 0 \<or> square_overflows sigma)
    | Inr v \<Rightarrow> K \<noteq> Fin 0 \<and> \<not> square_overflows sigma) \<and>
   (case call_delta S K T r sigma of
      Inl e \<Rightarrow> e = (if K = Fin 0 then ZeroDivisionError else OverflowError) \<and>
               (K = Fin 0 \<or> square_overflows sigma)
    | Inr v \<Rightarrow> K \<noteq> Fin 0 \<and> \<not> square_overflows sigma) \<and>
   (case put_delta S K T r sigma of
      Inl e \<Rightarrow> e = (if K = Fin 0 then ZeroDivisionError else OverflowError) \<and>
               (K = Fin 0 \<or> square_overflows sigma)
    | Inr v \<Rightarrow> K \<noteq> Fin 0 \<and> \<not> square_overflows sigma) \<and>
   (case call_vega S K T r sigma of
      Inl e \<Rightarrow> e = (if K = Fin 0 then ZeroDivisionError else OverflowError) \<and>
               (K = Fin 0 \<or> square_overflows sigma)
    | Inr v \<Rightarrow> K \<noteq> Fin 0 \<and> \<not> square_overflows sigma) \<and>
   (case put_vega S K T r sigma of
      Inl e \<Rightarrow> e = (if K = Fin 0 then ZeroDivisionError else OverflowError) \<and>
               (K = Fin 0 \<or> square_overflows sigma)
    | Inr v \<Rightarrow> K \<noteq> Fin 0 \<and> \<not> square_overflows sigma)"
proof -
  have "d1 S K T r sigma = Inl ZeroDivisionError \<and> K = Fin 0 \<or>
        d1 S K T r sigma = Inl OverflowError \<and> K \<noteq> Fin 0 \<and> square_overflows sigma \<or>
        (\<exists>a. d1 S K T r sigma = Inr a) \<and> K \<noteq> Fin 0 \<and> \<not> square_overflows sigma"
    by (cases sigma) (simp_all add: d1_def py_truediv_def square_overflows_def)
  then show ?thesis
    by (auto simp: call_value_def put_value_def call_delta_def put_delta_def call_vega_def
          put_vega_def d2_def)
qed

section \<open>Properties of cointegration_analysis.py\<close>

lemma sum_bools_isnull_zero:
  "sum_bools (isnull s) = 0 \<longleftrightarrow> None \<notin> snd ` set s"
proof (induction s)
  case Nil
  show ?case by (simp add: sum_bools_def isnull_def)
next
  case (Cons p s)
  obtain i v where p: "p = (i, v)" by (cases p)
  from Cons show ?case
    by (cases v) (simp_all add: sum_bools_def isnull_def p)
qed

lemma snd_present: "map snd (present s) = map (\<lambda>p. Some (snd p)) s"
  by (induction s) (auto simp: present_def)

lemma sum_bools_isnull_present: "sum_bools (isnull (present s)) = 0"
proof -
  have "None \<notin> set (map snd (present s))"
    unfolding snd_present by auto
  then show ?thesis by (simp add: sum_bools_isnull_zero)
qed

lemma index_present: "index (present s) = map fst s"
  by (induction s) (auto simp: index_def present_def)

lemma length_present: "length (present s) = length s"
  by (simp add: present_def)

lemma length_diff_values: "length (diff_values vs) = length vs - 1"
  by (induction vs rule: diff_values.induct) auto

lemma nth_diff_values:
  "Suc k < length vs \<Longrightarrow> diff_values vs ! k = opt_sub (vs ! Suc k) (vs ! k)"
proof (induction vs arbitrary: k rule: diff_values.induct)
  case (1 a b vs)
  then show ?case by (cases k) auto
qed auto

text \<open>\<open>z.shift().iloc[1:]\<close> is the series of the lagged residuals.\<close>

lemma iloc_shift: "iloc_from1 (shift z) = spec_lagged z"
proof (cases z)
  case Nil
  then show ?thesis by (simp add: iloc_from1_def shift_def spec_lagged_def index_def)
next
  case (Cons p ps)
  have lhs: "iloc_from1 (shift (p # ps)) = zip (map fst ps) (map snd (p # ps))"
    by (simp add: iloc_from1_def shift_def index_def)
  have "zip (map fst ps) (map snd (p # ps)) = spec_lagged (p # ps)"
  proof (rule nth_equalityI)
    show "length (zip (map fst ps) (map snd (p # ps))) = length (spec_lagged (p # ps))"
      by (simp add: spec_lagged_def del: upt_Suc)
  next
    fix k assume "k < length (zip (map fst ps) (map snd (p # ps)))"
    then have k: "k < length ps" by simp
    then have "spec_lagged (p # ps) ! k = (fst ((p # ps) ! (1 + k)), snd ((p # ps) ! (1 + k - 1)))"
      unfolding spec_lagged_def by (subst nth_map_upt) simp_all
    with k show "zip (map fst ps) (map snd (p # ps)) ! k = spec_lagged (p # ps) ! k"
      by (simp del: list.map add: nth_Cons')
  qed
  with Cons lhs show ?thesis by simp
qed

text \<open>
  \<open>y.diff().iloc[1:]\<close>, on a series without missing values, is the series of the first
  differences.
\<close>

lemma iloc_diff_present:
  "iloc_from1 (diff (present y)) = present (spec_first_differences y)"
proof (cases y)
  case Nil
  then show ?thesis
    by (simp add: iloc_from1_def diff_def spec_first_differences_def index_def present_def)
next
  case (Cons p ps)
  let ?vs = "map snd (present (p # ps))"
  have v: "\<And>k. k < Suc (length ps) \<Longrightarrow> ?vs ! k = Some (snd ((p # ps) ! k))"
    unfolding snd_present by (simp del: list.map)
  have l: "length ?vs = Suc (length ps)" by (simp add: length_present)
  have lhs: "iloc_from1 (diff (present (p # ps))) = zip (map fst ps) (diff_values ?vs)"
    by (simp add: iloc_from1_def diff_def index_present)
  have "zip (map fst ps) (diff_values ?vs) = present (spec_first_differences (p # ps))"
  proof (rule nth_equalityI)
    show "length (zip (map fst ps) (diff_values ?vs)) =
          length (present (spec_first_differences (p # ps)))"
      by (simp add: length_diff_values l length_present spec_first_differences_def
            del: list.map upt_Suc)
  next
    fix k assume "k < length (zip (map fst ps) (diff_values ?vs))"
    then have k: "k < length ps" by (simp add: length_diff_values l del: list.map)
    have "diff_values ?vs ! k = opt_sub (?vs ! Suc k) (?vs ! k)"
      using k by (intro nth_diff_values) (simp add: length_present)
    also have "\<dots> = Some (snd ((p # ps) ! Suc k) - snd ((p # ps) ! k))"
      using k by (simp add: v del: list.map nth_Cons_Suc)
    finally have dv: "diff_values ?vs ! k = Some (snd ((p # ps) ! Suc k) - snd ((p # ps) ! k))" .
    have "spec_first_differences (p # ps) ! k =
            (fst ((p # ps) ! (1 + k)), snd ((p # ps) ! (1 + k)) - snd ((p # ps) ! (1 + k - 1)))"
      using k unfolding spec_first_differences_def by (subst nth_map_upt) simp_all
    then have sd: "present (spec_first_differences (p # ps)) ! k =
            (fst (ps ! k), Some (snd ((p # ps) ! Suc k) - snd ((p # ps) ! k)))"
      using k by (simp add: present_def spec_first_differences_def del: upt_Suc)
    show "zip (map fst ps) (diff_values ?vs) ! k =
          present (spec_first_differences (p # ps)) ! k"
      using k by (simp add: dv sd length_diff_values length_present)
  qed
  with Cons lhs show ?thesis by simp
qed

text \<open>
  C2 as stated fails. With \<open>y = 0, 1, 0\<close> and the constant regressor \<open>x = 2, 2, 2\<close>, of the
  same length and index and without missing values, \<open>add_constant\<close> adds no column of
  ones, the first fit has no intercept and returns one coefficient, and unpacking it
  into \<open>c, gamma\<close> raises \<open>ValueError\<close>: the function returns nothing and the second
  regression is never fitted.
\<close>

theorem estimate_constant_regressor:
  "estimate_long_run_short_run_relationships sm_add_constant least_squares
       (Series [(0::nat, Some 0), (1, Some 1), (2, Some 0)])
       (Series [(0, Some 2), (1, Some 2), (2, Some 2)]) =
     (Inl ValueError,
      [OLS_fit [(0, Some 0), (1, Some 1), (2, Some 0)]
         [[(0, Some 2), (1, Some 2), (2, Some 2)]] (Some True)])"
  by (simp add: estimate_long_run_short_run_relationships_def sm_add_constant_def
        is_nonzero_const_def least_squares_def sum_bools_def isnull_def index_def column_def
        dot_def Let_def)

text \<open>
  C2, when the fits return their coefficients. On two series without missing values and
  with the same index, if the first fit succeeds with exactly two coefficients and the
  second with at least one, \<open>estimate_long_run_short_run_relationships\<close> (i) fits \<open>y\<close> on
  \<open>x\<close> with a constant (\<open>add_constant(x)\<close>, \<open>has_const=True\<close>), which gives \<open>c\<close>, \<open>gamma\<close> and
  the residuals \<open>z\<close>; (ii) fits, with no constant, the first differences of \<open>y\<close> on the
  lagged residuals, both from the second time point on, which gives \<open>alpha\<close>; and (iii)
  returns \<open>(c, gamma, alpha, z)\<close> with \<open>z\<close> the residuals of the first fit at their full
  length. These two fits are the only calls it makes.
\<close>

theorem estimate_steps:
  assumes "map fst y = map fst x"
    and "OLS (present y) (add_constant (present x)) (Some True) = Inr long_run"
    and "params long_run = [c, gamma]"
    and "OLS (present (spec_first_differences y)) [spec_lagged (resid long_run)] None =
           Inr short_run"
    and "params short_run = alpha # rest"
  shows "estimate_long_run_short_run_relationships add_constant OLS
           (Series (present y)) (Series (present x)) =
         (Inr (c, gamma, alpha, resid long_run),
          [OLS_fit (present y) (add_constant (present x)) (Some True),
           OLS_fit (present (spec_first_differences y)) [spec_lagged (resid long_run)] None])"
  using assms
  by (simp add: estimate_long_run_short_run_relationships_def sum_bools_isnull_present
        index_present iloc_shift iloc_diff_present Let_def)

theorem estimate_steps_witness:
  "map fst y0 = map fst x0 \<and>
   least_squares (present y0) (sm_add_constant (present x0)) (Some True) =
     Inr \<lparr>params = [1 / 3, 0], resid = z0\<rparr> \<and>
   least_squares (present (spec_first_differences y0)) [spec_lagged z0] None =
     Inr \<lparr>params = [- 9 / 5], resid = [(1, Some (2 / 5)), (2, Some (1 / 5))]\<rparr> \<and>
   estimate_long_run_short_run_relationships sm_add_constant least_squares
       (Series (present y0)) (Series (present x0)) =
     (Inr (1 / 3, 0, - 9 / 5, z0),
      [OLS_fit (present y0) (sm_add_constant (present x0)) (Some True),
       OLS_fit (present (spec_first_differences y0)) [spec_lagged z0] None])"
proof -
  let ?long = "\<lparr>params = [1 / 3, 0], resid = z0\<rparr>"
  let ?short = "\<lparr>params = [- 9 / 5], resid = [(1::nat, Some (2 / 5)), (2, Some (1 / 5))]\<rparr>"
  have i: "map fst y0 = map fst x0"
    by (simp add: y0_def x0_def)
  have l: "least_squares (present y0) (sm_add_constant (present x0)) (Some True) = Inr ?long"
    by (simp add: least_squares_def sm_add_constant_def is_nonzero_const_def present_def y0_def x0_def z0_def column_def
          dot_def index_def Let_def)
  have lp: "params ?long = [1 / 3, 0]"
    by simp
  have d: "spec_first_differences y0 = [(1, 1), (2, - 1)]"
    by (simp add: spec_first_differences_def y0_def upt_rec)
  have g: "spec_lagged z0 = [(1, Some (- 1 / 3)), (2, Some (2 / 3))]"
    by (simp add: spec_lagged_def z0_def upt_rec)
  have s: "least_squares (present (spec_first_differences y0)) [spec_lagged z0] None = Inr ?short"
    unfolding d g
    by (simp add: least_squares_def present_def column_def dot_def index_def Let_def)
  have s': "least_squares (present (spec_first_differences y0)) [spec_lagged (resid ?long)] None =
              Inr ?short"
    using s by simp
  have sp: "params ?short = (- 9 / 5) # []"
    by simp
  show ?thesis
    using i l s
      estimate_steps [where add_constant = sm_add_constant and OLS = least_squares, OF i l lp s' sp]
    by simp
qed

text \<open>
  C4. When the two series have different indices, or one of them has a missing value,
  both functions fail with the \<open>AssertionError\<close> of the first check that fails (the
  precondition failure the specification calls InvalidInput) and have made no call to an
  estimator.
\<close>

theorem invalid_series_rejected:
  assumes "index ys \<noteq> index xs \<or> None \<in> snd ` set ys \<or> None \<in> snd ` set xs"
  shows "estimate_long_run_short_run_relationships add_constant OLS (Series ys) (Series xs) =
           (Inl (AssertionError
              (if None \<in> snd ` set ys then ''Input series y has nan-values. Unhandled case.''
               else if None \<in> snd ` set xs
                 then ''Input series x has nan-values. Unhandled case.''
               else ''The two input series y and x do not have the same index.'')), []) \<and>
         engle_granger_two_step_cointegration_test add_constant OLS adfuller
             (Series ys) (Series xs) =
           (Inl (AssertionError
              (if None \<in> snd ` set ys then ''Input series y has nan-values. Unhandled case.''
               else if None \<in> snd ` set xs
                 then ''Input series x has nan-values. Unhandled case.''
               else ''The two input series y and x do not have the same index.'')), [])"
  using assms
  by (auto simp: estimate_long_run_short_run_relationships_def
        engle_granger_two_step_cointegration_test_def sum_bools_isnull_zero)

theorem invalid_series_rejected_witness:
  "None \<in> snd ` set [(0::nat, Some 1), (1, None)] \<and>
   index [(0::nat, Some (1::real)), (1, Some 2)] \<noteq> index [(0, Some (1::real)), (2, Some 2)] \<and>
   (\<forall>add_constant OLS adfuller.
      estimate_long_run_short_run_relationships add_constant OLS
          (Series [(0::nat, Some 1), (1, None)]) (Series [(0, Some 1), (1, Some 2)]) =
        (Inl (AssertionError ''Input series y has nan-values. Unhandled case.''), []) \<and>
      engle_granger_two_step_cointegration_test add_constant OLS adfuller
          (Series [(0::nat, Some 1), (1, None)]) (Series [(0, Some 1), (1, Some 2)]) =
        (Inl (AssertionError ''Input series y has nan-values. Unhandled case.''), []) \<and>
      estimate_long_run_short_run_relationships add_constant OLS
          (Series [(0::nat, Some 1), (1, Some 2)]) (Series [(0, Some 1), (2, Some 2)]) =
        (Inl (AssertionError ''The two input series y and x do not have the same index.''), []) \<and>
      engle_granger_two_step_cointegration_test add_constant OLS adfuller
          (Series [(0::nat, Some 1), (1, Some 2)]) (Series [(0, Some 1), (2, Some 2)]) =
        (Inl (AssertionError ''The two input series y and x do not have the same index.''), []))"
proof -
  have h: "None \<in> snd ` set [(0::nat, Some (1::real)), (1, None)]"
    by simp
  then have h': "index [(0::nat, Some (1::real)), (1, None)] \<noteq> index [(0, Some 1), (1, Some 2)] \<or>
      None \<in> snd ` set [(0::nat, Some (1::real)), (1, None)] \<or>
      None \<in> snd ` set [(0::nat, Some (1::real)), (1, Some 2)]"
    by blast
  have i: "index [(0::nat, Some (1::real)), (1, Some 2)] \<noteq> index [(0, Some (1::real)), (2, Some 2)]"
    by (simp add: index_def)
  then have i': "index [(0::nat, Some (1::real)), (1, Some 2)] \<noteq> index [(0, Some 1), (2, Some 2)] \<or>
      None \<in> snd ` set [(0::nat, Some (1::real)), (1, Some 2)] \<or>
      None \<in> snd ` set [(0::nat, Some (1::real)), (2, Some 2)]"
    by blast
  show ?thesis
    using h i invalid_series_rejected [OF h'] invalid_series_rejected [OF i'] by simp
qed

text \<open>
  C10. When \<open>y\<close> or \<open>x\<close> is not a \<open>pd.Series\<close>, both functions fail at the first two
  assertions, with the message of the first argument that is not one, whatever the values
  are, and have made no call to an estimator.
\<close>

theorem non_series_rejected:
  assumes "\<not> isinstance_Series y \<or> \<not> isinstance_Series x"
  shows "estimate_long_run_short_run_relationships add_constant OLS y x =
           (Inl (AssertionError
              (if isinstance_Series y then ''Input series x should be of type pd.Series''
               else ''Input series y should be of type pd.Series'')), []) \<and>
         engle_granger_two_step_cointegration_test add_constant OLS adfuller y x =
           (Inl (AssertionError
              (if isinstance_Series y then ''Input series x should be of type pd.Series''
               else ''Input series y should be of type pd.Series'')), [])"
  using assms
  by (cases y; cases x)
     (simp_all add: estimate_long_run_short_run_relationships_def
        engle_granger_two_step_cointegration_test_def)

theorem non_series_rejected_witness:
  "\<not> isinstance_Series (PyList [Some 0, Some 1, Some 0] :: nat pyobj) \<and>
   (\<forall>add_constant OLS adfuller.
      estimate_long_run_short_run_relationships add_constant OLS
          (PyList [Some 0, Some 1, Some 0]) (Series (present x0)) =
        (Inl (AssertionError ''Input series y should be of type pd.Series''), []) \<and>
      engle_granger_two_step_cointegration_test add_constant OLS adfuller
          (PyList [Some 0, Some 1, Some 0]) (Series (present x0)) =
        (Inl (AssertionError ''Input series y should be of type pd.Series''), []))"
proof -
  have h: "\<not> isinstance_Series (PyList [Some 0, Some 1, Some 0] :: nat pyobj)"
    by simp
  then have h': "\<not> isinstance_Series (PyList [Some 0, Some 1, Some 0] :: nat pyobj) \<or>
      \<not> isinstance_Series (Series (present x0))"
    by blast
  show ?thesis
    using h non_series_rejected [OF h'] by simp
qed

text \<open>
  C5. \<open>engle_granger_two_step_cointegration_test\<close> takes the residuals \<open>z\<close> that
  \<open>estimate_long_run_short_run_relationships\<close> returns on the same arguments and drops
  \<open>c\<close>, \<open>gamma\<close> and \<open>alpha\<close>; it then calls \<open>adfuller\<close> once, on \<open>z\<close> with \<open>maxlag=1\<close> and
  \<open>autolag=None\<close>, and returns the statistic and the p-value of that call. What the
  estimation raises, or \<open>adfuller\<close>, it raises.
\<close>

theorem engle_granger_steps:
  "engle_granger_two_step_cointegration_test add_constant OLS adfuller y x =
     (case estimate_long_run_short_run_relationships add_constant OLS y x of
        (Inl e, calls) \<Rightarrow> (Inl e, calls)
      | (Inr (c, gamma, alpha, z), calls) \<Rightarrow>
          (map_sum (\<lambda>e. e) (\<lambda>res. (adfstat res, pvalue res)) (adfuller z 1 None),
           calls @ [ADF z 1 None]))"
  by (cases y; cases x)
     (simp_all add: estimate_long_run_short_run_relationships_def
        engle_granger_two_step_cointegration_test_def
        split: sum.splits prod.splits list.splits)

end
